theory Spec2Isabelle
  imports Main "HOL-Library.Word"
begin

section \<open>Values read from and written to a workspace file\<close>

text \<open>
  \<^verbatim>\<open>json.load\<close> hands the program dictionaries, lists, strings, integers, booleans and
  \<^verbatim>\<open>None\<close>; \<^verbatim>\<open>json.dump\<close> writes the same. A dictionary is the list of its items, with
  distinct keys (the parser has already resolved duplicates). Numbers with a fractional
  part are not modelled.
\<close>

datatype json =
    JNull
  | JBool bool
  | JInt int
  | JStr string
  | JArr "json list"
  | JObj "(string \<times> json) list"

text \<open>The exceptions the modelled code can raise.\<close>

datatype py_error = KeyError | TypeError | ValueError | OverflowError

text \<open>Python's truth value of an object, as \<^verbatim>\<open>if x:\<close> and \<^verbatim>\<open>x and y\<close> test it.\<close>

fun truthy :: "json \<Rightarrow> bool" where
  "truthy JNull = False"
| "truthy (JBool b) = b"
| "truthy (JInt n) = (n \<noteq> 0)"
| "truthy (JStr s) = (s \<noteq> [])"
| "truthy (JArr xs) = (xs \<noteq> [])"
| "truthy (JObj kvs) = (kvs \<noteq> [])"

text \<open>\<^verbatim>\<open>len(x)\<close>: defined on strings, lists and dictionaries, a \<^verbatim>\<open>TypeError\<close> otherwise.\<close>

fun py_len :: "json \<Rightarrow> py_error + nat" where
  "py_len (JStr s) = Inr (length s)"
| "py_len (JArr xs) = Inr (length xs)"
| "py_len (JObj kvs) = Inr (length kvs)"
| "py_len _ = Inl TypeError"

text \<open>\<^verbatim>\<open>d.get(key, default)\<close> on a dictionary.\<close>

definition dict_get :: "(string \<times> json) list \<Rightarrow> string \<Rightarrow> json \<Rightarrow> json" where
  "dict_get kvs k d = (case map_of kvs k of None \<Rightarrow> d | Some v \<Rightarrow> v)"

section \<open>The widgets\<close>

datatype orientation = Horizontal | Vertical

text \<open>
  \<^verbatim>\<open>ContentWidget\<close>: the two attributes the program reads back. \<open>app_name\<close> holds whatever
  object was passed in (\<open>JNull\<close> for \<^verbatim>\<open>None\<close>).
\<close>

record ContentWidget =
  content_type :: string
  app_name :: json

text \<open>
  \<^verbatim>\<open>SplitPaneWidget\<close>: while \<^verbatim>\<open>is_split\<close> is false the layout holds the content widget;
  once it is true the layout holds a \<^verbatim>\<open>QSplitter\<close> with an orientation and its child panes
  in order. The list of integers in a split is the argument of the last call of
  \<^verbatim>\<open>setSizes\<close> that the program made on that splitter: the shares it asked for. It is not
  what \<^verbatim>\<open>QSplitter.sizes()\<close> reports. Those numbers are the pixels that Qt has laid out; Qt
  changes them when the window is resized, when a handle is dragged and when a child goes
  away, and the program only ever reads them, in \<^verbatim>\<open>get_state\<close>.
\<close>

datatype SplitPaneWidget =
    ContentPane ContentWidget
  | SplitPane orientation "int list" "SplitPaneWidget list"

fun is_split :: "SplitPaneWidget \<Rightarrow> bool" where
  "is_split (ContentPane _) = False"
| "is_split (SplitPane _ _ _) = True"

text \<open>\<^verbatim>\<open>SplitPaneWidget()\<close>: a fresh pane holds a default content widget.\<close>

definition default_content :: ContentWidget where
  "default_content = \<lparr>content_type = ''default'', app_name = JNull\<rparr>"

definition new_pane :: SplitPaneWidget where
  "new_pane = ContentPane default_content"

section \<open>Setting content and launching\<close>

text \<open>
  \<^verbatim>\<open>set_pane_content\<close> returns the pane and the list of launches it attempted: each entry
  is the argument of one \<^verbatim>\<open>subprocess.Popen\<close> call made by \<^verbatim>\<open>launch_app\<close>. Exceptions of
  \<^verbatim>\<open>Popen\<close> are caught inside \<^verbatim>\<open>launch_app\<close> and only change the label.
\<close>

definition launch_app :: "ContentWidget \<Rightarrow> json list" where
  "launch_app cw =
     (if content_type cw = ''app'' \<and> truthy (app_name cw) then [app_name cw] else [])"

definition set_pane_content :: "json \<Rightarrow> json \<Rightarrow> SplitPaneWidget \<Rightarrow> json list \<times> SplitPaneWidget" where
  "set_pane_content ctype aname self =
     (if is_split self then ([], self)
      else if ctype = JStr ''app'' \<and> truthy aname then
        (let cw = \<lparr>content_type = ''app'', app_name = aname\<rparr>
         in (launch_app cw, ContentPane cw))
      else ([], ContentPane default_content))"

section \<open>Saving: \<^verbatim>\<open>get_state\<close>\<close>

text \<open>
  \<^verbatim>\<open>get_state\<close> reads \<^verbatim>\<open>QSplitter.sizes()\<close> of every splitter it meets. What Qt reports is
  an input of the function: \<open>rd path\<close> is the list that the splitter of the pane at \<open>path\<close>
  (the child indices from the pane on which \<^verbatim>\<open>get_state\<close> was first called) reports at
  that moment, a list of C integers. \<open>get_states\<close> is the loop over
  \<^verbatim>\<open>range(splitter.count())\<close>, from child \<open>i\<close> on.
\<close>

fun get_state :: "(nat list \<Rightarrow> 32 word list) \<Rightarrow> nat list \<Rightarrow> SplitPaneWidget \<Rightarrow> json"
  and get_states ::
    "(nat list \<Rightarrow> 32 word list) \<Rightarrow> nat list \<Rightarrow> nat \<Rightarrow> SplitPaneWidget list \<Rightarrow> json list" where
  "get_state rd path (ContentPane cw) =
     JObj [(''type'', JStr ''pane''),
           (''content'', JStr (content_type cw)),
           (''app_name'', if content_type cw = ''app'' then app_name cw else JNull)]"
| "get_state rd path (SplitPane ori requested children) =
     JObj [(''type'', JStr ''split''),
           (''orientation'', JStr (if ori = Horizontal then ''horizontal'' else ''vertical'')),
           (''sizes'', JArr (map (\<lambda>w. JInt (sint w)) (rd path))),
           (''children'', JArr (get_states rd path 0 children))]"
| "get_states rd path i [] = []"
| "get_states rd path i (c # cs) = get_state rd (path @ [i]) c # get_states rd path (Suc i) cs"

section \<open>Loading: \<^verbatim>\<open>create_from_state\<close>\<close>

text \<open>
  The \<^verbatim>\<open>for\<close> loop over \<^verbatim>\<open>children_states\<close>. A list yields its elements. A non-empty
  string or dictionary yields strings, on which the recursive call raises \<^verbatim>\<open>TypeError\<close>
  at \<^verbatim>\<open>state["type"]\<close>; an empty one yields nothing; any other object is not iterable.
\<close>

fun children_states_of :: "json \<Rightarrow> py_error + json list" where
  "children_states_of (JArr cs) = Inr cs"
| "children_states_of (JStr s) = (if s = [] then Inr [] else Inl TypeError)"
| "children_states_of (JObj kvs) = (if kvs = [] then Inr [] else Inl TypeError)"
| "children_states_of _ = Inl TypeError"

text \<open>
  The body of the loop, given the outcome of each recursive call in order: a child that
  came back as \<^verbatim>\<open>None\<close> is skipped by \<^verbatim>\<open>if child_widget:\<close>, an exception ends the loop, and
  the launches made so far stay made.
\<close>

fun add_children ::
  "(json list \<times> (py_error + SplitPaneWidget option)) list \<Rightarrow> json list \<times> (py_error + SplitPaneWidget list)" where
  "add_children [] = ([], Inr [])"
| "add_children ((ls, Inl e) # rest) = (ls, Inl e)"
| "add_children ((ls, Inr w) # rest) =
     (case add_children rest of
        (ls', Inl e) \<Rightarrow> (ls @ ls', Inl e)
      | (ls', Inr ws) \<Rightarrow> (ls @ ls', Inr (case w of None \<Rightarrow> ws | Some c \<Rightarrow> c # ws)))"

text \<open>
  \<^verbatim>\<open>splitter.setSizes(sizes)\<close> takes a list and converts its elements to C integers, one
  after the other: an integer outside the range of a C \<^verbatim>\<open>int\<close> is an \<^verbatim>\<open>OverflowError\<close>, a
  boolean counts as 0 or 1, anything else is a \<^verbatim>\<open>TypeError\<close>, and the first element that
  fails decides. An argument that is not a list is a \<^verbatim>\<open>TypeError\<close>. The result is the list
  of shares the splitter was asked for.
\<close>

definition c_int_range :: "int \<Rightarrow> bool" where
  "c_int_range n = (- 2147483648 \<le> n \<and> n \<le> 2147483647)"

fun json_int :: "json \<Rightarrow> py_error + int" where
  "json_int (JInt n) = (if c_int_range n then Inr n else Inl OverflowError)"
| "json_int (JBool b) = Inr (if b then 1 else 0)"
| "json_int _ = Inl TypeError"

fun json_ints :: "json list \<Rightarrow> py_error + int list" where
  "json_ints [] = Inr []"
| "json_ints (x # xs) =
     (case json_int x of
        Inl e \<Rightarrow> Inl e
      | Inr n \<Rightarrow> (case json_ints xs of Inl e \<Rightarrow> Inl e | Inr ns \<Rightarrow> Inr (n # ns)))"

fun setSizes :: "json \<Rightarrow> py_error + int list" where
  "setSizes (JArr xs) = json_ints xs"
| "setSizes _ = Inl TypeError"

text \<open>
  The size block after the loop; \<open>count\<close> is \<^verbatim>\<open>splitter.count()\<close>. The result is the
  argument with which \<^verbatim>\<open>setSizes\<close> was called; with no child there is no call, which the
  empty list stands for.
\<close>

definition reconcile_sizes :: "json \<Rightarrow> nat \<Rightarrow> py_error + int list" where
  "reconcile_sizes sizes count =
     (if truthy sizes then
        (case py_len sizes of
           Inl e \<Rightarrow> Inl e
         | Inr n \<Rightarrow> if n = count then setSizes sizes else Inr (replicate count 1))
      else Inr (replicate count 1))"

text \<open>
  The result is the list of launches attempted, then either the exception raised or the
  value returned, where \<open>None\<close> is Python's \<^verbatim>\<open>None\<close>. \<^verbatim>\<open>state["type"]\<close> on anything but a
  dictionary is a \<^verbatim>\<open>TypeError\<close>, on a dictionary without the key a \<^verbatim>\<open>KeyError\<close>.
\<close>

function (sequential) create_from_state ::
  "json \<Rightarrow> json list \<times> (py_error + SplitPaneWidget option)" where
  "create_from_state (JObj kvs) =
     (case map_of kvs ''type'' of
        None \<Rightarrow> ([], Inl KeyError)
      | Some ty \<Rightarrow>
          if ty = JStr ''pane'' then
            (case set_pane_content (dict_get kvs ''content'' (JStr ''default''))
                    (dict_get kvs ''app_name'' JNull) new_pane of
               (ls, new) \<Rightarrow> (ls, Inr (Some new)))
          else if ty = JStr ''split'' then
            (case map_of kvs ''orientation'' of
               None \<Rightarrow> ([], Inl KeyError)
             | Some ori \<Rightarrow>
                 (case children_states_of (dict_get kvs ''children'' (JArr [])) of
                    Inl e \<Rightarrow> ([], Inl e)
                  | Inr cs \<Rightarrow>
                      (case add_children (map create_from_state cs) of
                         (ls, Inl e) \<Rightarrow> (ls, Inl e)
                       | (ls, Inr ws) \<Rightarrow>
                           (case reconcile_sizes (dict_get kvs ''sizes'' (JArr [])) (length ws) of
                              Inl e \<Rightarrow> (ls, Inl e)
                            | Inr sizes \<Rightarrow>
                                (ls, Inr (Some (SplitPane
                                   (if ori = JStr ''horizontal'' then Horizontal else Vertical)
                                   sizes ws)))))))
          else ([], Inr None))"
| "create_from_state _ = ([], Inl TypeError)"
  by pat_completeness auto
termination
proof (relation "measure size")
  show "wf (measure (size :: json \<Rightarrow> nat))" by simp
next
  fix kvs :: "(string \<times> json) list" and ori cs and c :: json
  assume iter: "children_states_of (dict_get kvs ''children'' (JArr [])) = Inr cs"
    and c: "c \<in> set cs"
  have item: "size v < Suc (size_list (size_prod (\<lambda>x. 0) size) kvs)"
    if "map_of kvs k = Some v" for k v
    using that by (induction kvs) (auto split: if_splits)
  have elem: "size c < Suc (size_list size cs)"
    using c by (induction cs) auto
  show "(c, JObj kvs) \<in> measure size"
  proof (cases "map_of kvs ''children''")
    case None
    with iter c show ?thesis by (simp add: dict_get_def)
  next
    case (Some v)
    with iter have "children_states_of v = Inr cs" by (simp add: dict_get_def)
    with c have "v = JArr cs" by (cases v) (auto split: if_splits)
    with elem have "size c < size v" by simp
    also from Some have "size v < Suc (size_list (size_prod (\<lambda>x. 0) size) kvs)"
      by (rule item)
    finally show ?thesis by simp
  qed
qed

section \<open>Well-formed pane trees\<close>

text \<open>
  The trees of the data model: a leaf is either the default content, with no application
  name, or an application with a non-empty name; a split has at least two children and
  one positive weight per child, the weights being the shares last asked for.
\<close>

definition valid_content :: "ContentWidget \<Rightarrow> bool" where
  "valid_content cw =
     (if content_type cw = ''app'' then (case app_name cw of JStr n \<Rightarrow> n \<noteq> [] | _ \<Rightarrow> False)
      else content_type cw = ''default'' \<and> app_name cw = JNull)"

fun valid_tree :: "SplitPaneWidget \<Rightarrow> bool" where
  "valid_tree (ContentPane cw) = valid_content cw"
| "valid_tree (SplitPane ori sizes children) =
     (2 \<le> length children \<and> length sizes = length children \<and>
      list_all (\<lambda>s. 0 < s) sizes \<and> list_all valid_tree children)"

text \<open>Every split of the tree has at least two children.\<close>

fun splits_have_two :: "SplitPaneWidget \<Rightarrow> bool" where
  "splits_have_two (ContentPane cw) = True"
| "splits_have_two (SplitPane ori sizes children) =
     (2 \<le> length children \<and> list_all splits_have_two children)"

text \<open>The application names of the leaves that show an application, left to right.\<close>

fun app_names :: "SplitPaneWidget \<Rightarrow> json list" where
  "app_names (ContentPane cw) = (if content_type cw = ''app'' then [app_name cw] else [])"
| "app_names (SplitPane ori sizes children) = concat (map app_names children)"

section \<open>Splitting and closing\<close>

text \<open>
  \<^verbatim>\<open>split\<close>: \<open>width\<close> and \<open>height\<close> are the pane's \<^verbatim>\<open>self.width()\<close> and \<^verbatim>\<open>self.height()\<close>, which
  Qt's layout decides. The method returns early on a pane that is already split and
  raises nothing. On a leaf it calls \<^verbatim>\<open>setSizes\<close> with two equal numbers, half the width
  or half the height.
\<close>

definition split :: "orientation \<Rightarrow> int \<Rightarrow> int \<Rightarrow> SplitPaneWidget \<Rightarrow> SplitPaneWidget" where
  "split ori width height self =
     (if is_split self then self
      else SplitPane ori
             (if ori = Horizontal then [width div 2, width div 2]
              else [height div 2, height div 2])
             [new_pane, new_pane])"

text \<open>
  A widget is named by the child indices that lead to it from the root pane; the source
  reaches it through the widget object itself and finds the container with
  \<^verbatim>\<open>parentWidget()\<close>.
\<close>

fun widget_at :: "nat list \<Rightarrow> SplitPaneWidget \<Rightarrow> SplitPaneWidget option" where
  "widget_at [] w = Some w"
| "widget_at (i # path) (ContentPane cw) = None"
| "widget_at (i # path) (SplitPane ori sizes children) =
     (if i < length children then widget_at path (children ! i) else None)"

definition delete_nth :: "nat \<Rightarrow> 'a list \<Rightarrow> 'a list" where
  "delete_nth i xs = take i xs @ drop (Suc i) xs"

text \<open>
  \<^verbatim>\<open>close_pane\<close> called on the widget at a path. A pane whose parent is a splitter, which
  is every pane but the root, calls \<^verbatim>\<open>self.deleteLater()\<close> and does nothing else. The root
  pane's parent is the window's central widget: the second branch of the source then
  evaluates \<^verbatim>\<open>self.layout()\<close>, and as \<^verbatim>\<open>__init__\<close> has bound the attribute \<^verbatim>\<open>layout\<close> to the
  \<^verbatim>\<open>QVBoxLayout\<close> object the call raises \<^verbatim>\<open>TypeError\<close>. \<open>NoWidget\<close>: the path names no
  widget, so there is no call.
\<close>

datatype close_outcome = NoWidget | Raised py_error | DeleteLater "nat list"

fun close_pane :: "nat list \<Rightarrow> SplitPaneWidget \<Rightarrow> close_outcome" where
  "close_pane [] root = Raised TypeError"
| "close_pane (i # path) root =
     (case widget_at (i # path) root of
        None \<Rightarrow> NoWidget
      | Some self \<Rightarrow> DeleteLater (i # path))"

text \<open>
  What \<^verbatim>\<open>deleteLater\<close> brings about once control is back in Qt's event loop: the widget
  at the path is destroyed and its splitter has one child fewer. The program makes no call
  of \<^verbatim>\<open>setSizes\<close> here; how Qt shares out the room among the panes that remain is not
  part of the tree.
\<close>

fun deferred_delete :: "nat list \<Rightarrow> SplitPaneWidget \<Rightarrow> SplitPaneWidget" where
  "deferred_delete [] w = w"
| "deferred_delete (i # path) (ContentPane cw) = ContentPane cw"
| "deferred_delete [i] (SplitPane ori requested children) =
     SplitPane ori requested (delete_nth i children)"
| "deferred_delete (i # j # path) (SplitPane ori requested children) =
     (if i < length children
      then SplitPane ori requested (children[i := deferred_delete (j # path) (children ! i)])
      else SplitPane ori requested children)"

text \<open>
  \<^verbatim>\<open>split\<close> called on the widget at a path, in a pane that is \<open>width\<close> by \<open>height\<close>. The
  result is \<open>None\<close> when the path names no widget, and otherwise says whether the call
  raised or returned, and the tree it left.
\<close>

fun split_at ::
  "nat list \<Rightarrow> orientation \<Rightarrow> int \<Rightarrow> int \<Rightarrow> SplitPaneWidget \<Rightarrow> (py_error + SplitPaneWidget) option" where
  "split_at [] ori width height self = Some (Inr (split ori width height self))"
| "split_at (i # path) ori width height (ContentPane cw) = None"
| "split_at (i # path) ori width height (SplitPane o' requested children) =
     (if i < length children then
        (case split_at path ori width height (children ! i) of
           None \<Rightarrow> None
         | Some (Inl e) \<Rightarrow> Some (Inl e)
         | Some (Inr c) \<Rightarrow> Some (Inr (SplitPane o' requested (children[i := c]))))
      else None)"

section \<open>The drag gesture on the handle\<close>

record QPoint =
  xp :: int
  yp :: int

record QRect =
  left :: int
  top :: int
  rect_width :: int
  rect_height :: int

text \<open>\<^verbatim>\<open>QRect.contains(QPoint)\<close>, edges included, for a rectangle of non-negative size.\<close>

definition contains :: "QRect \<Rightarrow> QPoint \<Rightarrow> bool" where
  "contains r p =
     (left r \<le> xp p \<and> xp p \<le> left r + rect_width r - 1 \<and>
      top r \<le> yp p \<and> yp p \<le> top r + rect_height r - 1)"

datatype button = LeftButton | OtherButton

text \<open>The calls a mouse handler makes to \<^verbatim>\<open>self.split\<close> and \<^verbatim>\<open>self.open_pane_options\<close>.\<close>

datatype call = SplitCall orientation | OpenPaneOptions

text \<open>
  One pane as the mouse handlers see it: its content or splitter, its geometry, the
  attributes of the drag, whether it holds the mouse grab, and the calls made so far.
  The cursor shape is left out.
\<close>

record pane_state =
  widget :: SplitPaneWidget
  pane_width :: int
  pane_height :: int
  split_handle_size :: int
  split_threshold :: int
  dragging_handle :: bool
  drag_start_pos :: QPoint
  current_drag_pos :: QPoint
  mouse_grabbed :: bool
  calls :: "call list"

definition SPLIT_THRESHOLD :: int where
  "SPLIT_THRESHOLD = 10"

text \<open>\<^verbatim>\<open>__init__\<close>, for a pane that Qt has given the size \<open>w\<close> by \<open>h\<close>.\<close>

definition init_pane :: "int \<Rightarrow> int \<Rightarrow> pane_state" where
  "init_pane w h =
     \<lparr>widget = new_pane, pane_width = w, pane_height = h, split_handle_size = 15,
      split_threshold = SPLIT_THRESHOLD, dragging_handle = False,
      drag_start_pos = \<lparr>xp = 0, yp = 0\<rparr>, current_drag_pos = \<lparr>xp = 0, yp = 0\<rparr>,
      mouse_grabbed = False, calls = []\<rparr>"

definition get_handle_rect :: "pane_state \<Rightarrow> QRect" where
  "get_handle_rect s =
     \<lparr>left = pane_width s - split_handle_size s, top = pane_height s - split_handle_size s,
      rect_width = split_handle_size s, rect_height = split_handle_size s\<rparr>"

definition point_diff :: "QPoint \<Rightarrow> QPoint \<Rightarrow> QPoint" where
  "point_diff p q = \<lparr>xp = xp p - xp q, yp = yp p - yp q\<rparr>"

definition mousePressEvent :: "QPoint \<Rightarrow> button \<Rightarrow> pane_state \<Rightarrow> pane_state" where
  "mousePressEvent pos b s =
     (if \<not> is_split (widget s) \<and> contains (get_handle_rect s) pos then
        (if b = LeftButton then
           s\<lparr>dragging_handle := True, drag_start_pos := pos, current_drag_pos := pos,
             mouse_grabbed := True\<rparr>
         else s)
      else s)"

definition call_split :: "orientation \<Rightarrow> pane_state \<Rightarrow> pane_state" where
  "call_split ori s =
     s\<lparr>widget := split ori (pane_width s) (pane_height s) (widget s),
       calls := calls s @ [SplitCall ori]\<rparr>"

definition mouseMoveEvent :: "QPoint \<Rightarrow> pane_state \<Rightarrow> pane_state" where
  "mouseMoveEvent pos s =
     (if dragging_handle s then
        (let s1 = s\<lparr>current_drag_pos := pos\<rparr>;
             delta = point_diff (current_drag_pos s1) (drag_start_pos s1)
         in if \<not> is_split (widget s1) \<and>
               (\<bar>xp delta\<bar> > split_threshold s1 \<or> \<bar>yp delta\<bar> > split_threshold s1)
            then (call_split (if \<bar>xp delta\<bar> > \<bar>yp delta\<bar> then Horizontal else Vertical) s1)
                   \<lparr>dragging_handle := False, mouse_grabbed := False\<rparr>
            else s1)
      else s)"

definition mouseReleaseEvent :: "QPoint \<Rightarrow> pane_state \<Rightarrow> pane_state" where
  "mouseReleaseEvent pos s =
     (if dragging_handle s then
        (let s1 = s\<lparr>dragging_handle := False, mouse_grabbed := False\<rparr>;
             total_delta = point_diff pos (drag_start_pos s1)
         in if \<not> is_split (widget s1) \<and> \<bar>xp total_delta\<bar> < split_threshold s1 \<and>
               \<bar>yp total_delta\<bar> < split_threshold s1
            then s1\<lparr>calls := calls s1 @ [OpenPaneOptions]\<rparr>
            else s1)
      else s)"

text \<open>\<^verbatim>\<open>paintEvent\<close> draws the line of the would-be split exactly in this case.\<close>

definition drag_line_drawn :: "pane_state \<Rightarrow> bool" where
  "drag_line_drawn s = (dragging_handle s \<and> \<not> is_split (widget s))"

datatype mouse_event = Press QPoint button | Move QPoint | Release QPoint

fun deliver :: "mouse_event \<Rightarrow> pane_state \<Rightarrow> pane_state" where
  "deliver (Press pos b) s = mousePressEvent pos b s"
| "deliver (Move pos) s = mouseMoveEvent pos s"
| "deliver (Release pos) s = mouseReleaseEvent pos s"

fun run :: "mouse_event list \<Rightarrow> pane_state \<Rightarrow> pane_state" where
  "run [] s = s"
| "run (e # es) s = run es (deliver e s)"

fun is_press :: "mouse_event \<Rightarrow> bool" where
  "is_press (Press pos b) = True"
| "is_press _ = False"

section \<open>Workspace files\<close>

text \<open>
  A Python string is the list of its code points. \<^verbatim>\<open>str.isalnum\<close> on one character is
  the ASCII letters and digits below 128; above, it is decided by the Unicode tables of
  the interpreter, which the model takes as the parameter \<open>tbl\<close>.
\<close>

definition py_str :: "string \<Rightarrow> nat list" where
  "py_str s = map of_char s"

definition isalnum :: "(nat \<Rightarrow> bool) \<Rightarrow> nat \<Rightarrow> bool" where
  "isalnum tbl c =
     (if c < 128 then (48 \<le> c \<and> c \<le> 57) \<or> (65 \<le> c \<and> c \<le> 90) \<or> (97 \<le> c \<and> c \<le> 122)
      else tbl c)"

text \<open>The characters \<^verbatim>\<open>str.rstrip()\<close> removes: Python's whitespace code points.\<close>

definition isspace :: "nat \<Rightarrow> bool" where
  "isspace c =
     ((9 \<le> c \<and> c \<le> 13) \<or> (28 \<le> c \<and> c \<le> 32) \<or> c = 133 \<or> c = 160 \<or> c = 5760 \<or>
      (8192 \<le> c \<and> c \<le> 8202) \<or> c = 8232 \<or> c = 8233 \<or> c = 8239 \<or> c = 8287 \<or> c = 12288)"

definition rstrip :: "nat list \<Rightarrow> nat list" where
  "rstrip s = rev (dropWhile isspace (rev s))"

text \<open>\<^verbatim>\<open>os.path.join\<close> of two components on a POSIX system.\<close>

definition os_path_join :: "nat list \<Rightarrow> nat list \<Rightarrow> nat list" where
  "os_path_join a b =
     (if b \<noteq> [] \<and> hd b = of_char CHR ''/'' then b
      else if a = [] \<or> last a = of_char CHR ''/'' then a @ b
      else a @ [of_char CHR ''/''] @ b)"

definition get_workspace_file_path :: "(nat \<Rightarrow> bool) \<Rightarrow> nat list \<Rightarrow> nat list \<Rightarrow> nat list" where
  "get_workspace_file_path tbl workspace_path workspace_name =
     (let safe_name = rstrip (filter (\<lambda>c. isalnum tbl c \<or> c \<in> set (py_str '' ._'')) workspace_name);
          safe_name = map (\<lambda>c. if c = of_char CHR '' '' then of_char CHR ''_'' else c) safe_name;
          safe_name = (if safe_name = [] then py_str ''untitled_workspace'' else safe_name)
      in os_path_join workspace_path (safe_name @ py_str ''.json''))"

text \<open>
  The derivation of the file name in the words of the specification: keep, strip the
  trailing whitespace, replace, fall back, append.
\<close>

definition spec_keep :: "(nat \<Rightarrow> bool) \<Rightarrow> nat \<Rightarrow> bool" where
  "spec_keep tbl c = (isalnum tbl c \<or> c = 32 \<or> c = 46 \<or> c = 95)"

fun spec_strip_trailing :: "nat list \<Rightarrow> nat list" where
  "spec_strip_trailing [] = []"
| "spec_strip_trailing (c # cs) =
     (if isspace c \<and> spec_strip_trailing cs = [] then [] else c # spec_strip_trailing cs)"

definition spec_filename :: "(nat \<Rightarrow> bool) \<Rightarrow> nat list \<Rightarrow> nat list" where
  "spec_filename tbl name =
     (let kept = filter (spec_keep tbl) name;
          stripped = spec_strip_trailing kept;
          replaced = map (\<lambda>c. if c = 32 then 95 else c) stripped;
          stem = (if replaced = [] then py_str ''untitled_workspace'' else replaced)
      in stem @ py_str ''.json'')"

section \<open>Loading a workspace into the window\<close>

text \<open>
  What reading the file gives: no file at the path, an \<^verbatim>\<open>OSError\<close> from \<^verbatim>\<open>open\<close>, a
  \<^verbatim>\<open>JSONDecodeError\<close> from \<^verbatim>\<open>json.load\<close>, or the parsed value.
\<close>

datatype file_read = NoFile | ReadError | InvalidJSON | Parsed json

datatype message = WarningNotFound | CriticalInvalidFormat | CriticalFailed

text \<open>
  The window: \<^verbatim>\<open>self.root_pane\<close> (\<open>None\<close> is Python's \<^verbatim>\<open>None\<close>), the widgets in
  \<^verbatim>\<open>self.main_layout\<close>, the launches attempted and the message boxes shown.
\<close>

record MainWindow =
  root_pane :: "SplitPaneWidget option"
  main_layout :: "SplitPaneWidget list"
  launched :: "json list"
  messages :: "message list"

text \<open>\<^verbatim>\<open>MainWindow.__init__\<close>: a single pane.\<close>

definition init_window :: MainWindow where
  "init_window = \<lparr>root_pane = Some new_pane, main_layout = [new_pane], launched = [], messages = []\<rparr>"

definition load_workspace :: "file_read \<Rightarrow> MainWindow \<Rightarrow> MainWindow" where
  "load_workspace f self =
     (case f of
        NoFile \<Rightarrow> self\<lparr>messages := messages self @ [WarningNotFound]\<rparr>
      | ReadError \<Rightarrow> self\<lparr>messages := messages self @ [CriticalFailed]\<rparr>
      | InvalidJSON \<Rightarrow> self\<lparr>messages := messages self @ [CriticalInvalidFormat]\<rparr>
      | Parsed state_data \<Rightarrow>
          (let cleared = self\<lparr>main_layout := [], root_pane := None\<rparr>
           in case create_from_state state_data of
                (ls, Inl e) \<Rightarrow>
                  cleared\<lparr>launched := launched cleared @ ls,
                          messages := messages cleared @ [CriticalFailed]\<rparr>
              | (ls, Inr None) \<Rightarrow>
                  cleared\<lparr>launched := launched cleared @ ls,
                          messages := messages cleared @ [CriticalFailed]\<rparr>
              | (ls, Inr (Some new_root)) \<Rightarrow>
                  cleared\<lparr>launched := launched cleared @ ls, root_pane := Some new_root,
                          main_layout := [new_root]\<rparr>))"

section \<open>Auxiliary definitions for the statements\<close>

text \<open>\<^verbatim>\<open>d[k] = v\<close> on the items of a dictionary.\<close>

fun dict_set :: "string \<Rightarrow> json \<Rightarrow> (string \<times> json) list \<Rightarrow> (string \<times> json) list" where
  "dict_set k v [] = [(k, v)]"
| "dict_set k v ((k', v') # kvs) =
     (if k' = k then (k, v) # kvs else (k', v') # dict_set k v kvs)"

text \<open>A tree with both kinds of leaf and a nested split, and some persisted nodes.\<close>

definition example_tree :: SplitPaneWidget where
  "example_tree =
     SplitPane Horizontal [300, 500]
       [ContentPane \<lparr>content_type = ''app'', app_name = JStr ''xterm''\<rparr>,
        SplitPane Vertical [2, 1, 7]
          [new_pane, ContentPane \<lparr>content_type = ''app'', app_name = JStr ''gedit''\<rparr>, new_pane]]"

definition two_panes :: SplitPaneWidget where
  "two_panes = SplitPane Horizontal [400, 400] [new_pane, new_pane]"

text \<open>The tree with the widget at a path replaced, everything else as it was.\<close>

fun replace_at :: "nat list \<Rightarrow> SplitPaneWidget \<Rightarrow> SplitPaneWidget \<Rightarrow> SplitPaneWidget" where
  "replace_at [] new w = new"
| "replace_at (i # path) new (ContentPane cw) = ContentPane cw"
| "replace_at (i # path) new (SplitPane ori sizes children) =
     (if i < length children
      then SplitPane ori sizes (children[i := replace_at path new (children ! i)])
      else SplitPane ori sizes children)"

text \<open>A tree without the shares asked for: its shape, contents and orientations.\<close>

fun forget_sizes :: "SplitPaneWidget \<Rightarrow> SplitPaneWidget" where
  "forget_sizes (ContentPane cw) = ContentPane cw"
| "forget_sizes (SplitPane ori requested children) = SplitPane ori [] (map forget_sizes children)"

text \<open>
  The tree that a round trip through the file is to produce from the tree at \<open>path\<close>:
  every leaf as it is; every split with its orientation and its children, and as shares
  the sizes that Qt reported for it at the time of saving if Qt reported one per child,
  and 1 for every child if not.
\<close>

fun reloaded :: "(nat list \<Rightarrow> 32 word list) \<Rightarrow> nat list \<Rightarrow> SplitPaneWidget \<Rightarrow> SplitPaneWidget"
  and reloadeds ::
    "(nat list \<Rightarrow> 32 word list) \<Rightarrow> nat list \<Rightarrow> nat \<Rightarrow> SplitPaneWidget list \<Rightarrow> SplitPaneWidget list" where
  "reloaded rd path (ContentPane cw) = ContentPane cw"
| "reloaded rd path (SplitPane ori requested children) =
     SplitPane ori
       (if rd path \<noteq> [] \<and> length (rd path) = length children then map sint (rd path)
        else replicate (length children) 1)
       (reloadeds rd path 0 children)"
| "reloadeds rd path i [] = []"
| "reloadeds rd path i (c # cs) = reloaded rd (path @ [i]) c # reloadeds rd path (Suc i) cs"

text \<open>A split that was asked for the shares 300 and 500, and what Qt may report for it.\<close>

definition wide_split :: SplitPaneWidget where
  "wide_split = SplitPane Horizontal [300, 500] [new_pane, new_pane]"

definition reported_297_495 :: "nat list \<Rightarrow> 32 word list" where
  "reported_297_495 path = [297, 495]"

text \<open>What Qt may report for the two splitters of \<open>example_tree\<close>.\<close>

definition example_reading :: "nat list \<Rightarrow> 32 word list" where
  "example_reading path = (if path = [] then [297, 495] else [100, 200, 300])"

definition default_pane_state :: json where
  "default_pane_state =
     JObj [(''type'', JStr ''pane''), (''content'', JStr ''default''), (''app_name'', JNull)]"

definition bogus_state :: json where
  "bogus_state = JObj [(''type'', JStr ''bogus'')]"

definition split_state :: "json \<Rightarrow> json list \<Rightarrow> json" where
  "split_state sizes children =
     JObj [(''type'', JStr ''split''), (''orientation'', JStr ''vertical''),
           (''sizes'', sizes), (''children'', JArr children)]"

section \<open>Properties of saving and loading\<close>

lemma c_int_range_sint: "c_int_range (sint (w :: 32 word))"
  using sint_ge [of w] sint_lt [of w] by (simp add: c_int_range_def)

lemma json_ints_ints:
  "json_ints (map JInt ss) = (if list_all c_int_range ss then Inr ss else Inl OverflowError)"
  by (induction ss) auto

lemma reconcile_sizes_ints:
  "reconcile_sizes (JArr (map JInt ss)) n =
     (if ss \<noteq> [] \<and> length ss = n
      then (if list_all c_int_range ss then Inr ss else Inl OverflowError)
      else Inr (replicate n 1))"
  by (simp add: reconcile_sizes_def json_ints_ints)

lemma reconcile_sizes_reported:
  "reconcile_sizes (JArr (map (\<lambda>w. JInt (sint w)) (ws :: 32 word list))) n =
     Inr (if ws \<noteq> [] \<and> length ws = n then map sint ws else replicate n 1)"
proof -
  have "map (\<lambda>w. JInt (sint w)) ws = map JInt (map sint ws)" by simp
  moreover have "list_all c_int_range (map sint ws)"
    by (simp add: list_all_iff c_int_range_sint)
  ultimately show ?thesis
    by (simp only: reconcile_sizes_ints) simp
qed

lemma add_children_all_Some:
  "add_children (map (\<lambda>w. (f w, Inr (Some w))) ws) = (concat (map f ws), Inr ws)"
  by (induction ws) auto

lemma add_children_append:
  "add_children (xs @ ys) =
     (case add_children xs of
        (ls, Inl e) \<Rightarrow> (ls, Inl e)
      | (ls, Inr ws) \<Rightarrow>
          (case add_children ys of
             (ls', Inl e) \<Rightarrow> (ls @ ls', Inl e)
           | (ls', Inr ws') \<Rightarrow> (ls @ ls', Inr (ws @ ws'))))"
  by (induction xs rule: add_children.induct) (auto split: prod.splits sum.splits option.splits)

lemma add_children_skip:
  "add_children (xs @ ([], Inr None) # ys) = add_children (xs @ ys)"
  by (simp add: add_children_append split: prod.splits sum.splits)

lemma map_of_dict_set:
  "map_of (dict_set k v kvs) k' = (if k' = k then Some v else map_of kvs k')"
  by (induction kvs) auto

lemma length_reloadeds: "length (reloadeds rd path i cs) = length cs"
  by (induction cs arbitrary: i) auto

lemma forget_sizes_reloaded:
  "forget_sizes (reloaded rd path t) = forget_sizes t"
  "map forget_sizes (reloadeds rd path i cs) = map forget_sizes cs"
  by (induction rd path t and rd path i cs rule: reloaded_reloadeds.induct) auto

lemma create_from_state_leaf:
  "valid_content cw \<Longrightarrow>
   create_from_state (get_state rd path (ContentPane cw)) =
     (app_names (ContentPane cw), Inr (Some (ContentPane cw)))"
  by (cases cw) (auto simp: valid_content_def dict_get_def set_pane_content_def new_pane_def
       launch_app_def default_content_def split: json.splits if_splits)

text \<open>
  Loading what was saved from a well-formed tree launches the application of every
  application leaf and builds the tree \<open>reloaded\<close>, whatever sizes Qt reported at saving.
\<close>

lemma create_from_state_get_state:
  "valid_tree t \<Longrightarrow>
   create_from_state (get_state rd path t) = (app_names t, Inr (Some (reloaded rd path t)))"
  "list_all valid_tree cs \<Longrightarrow>
   add_children (map create_from_state (get_states rd path i cs)) =
     (concat (map app_names cs), Inr (reloadeds rd path i cs))"
proof (induction rd path t and rd path i cs rule: get_state_get_states.induct)
  case (1 rd path cw)
  then show ?case using create_from_state_leaf by simp
next
  case (2 rd path ori requested children)
  from 2 have ch: "add_children (map create_from_state (get_states rd path 0 children)) =
      (concat (map app_names children), Inr (reloadeds rd path 0 children))"
    by simp
  show ?case
    by (cases ori)
       (simp_all add: dict_get_def ch reconcile_sizes_reported length_reloadeds
          del: get_states.simps)
next
  case (3 rd path i)
  then show ?case by simp
next
  case (4 rd path i c cs)
  then show ?case by simp
qed

lemma valid_wide_split: "valid_tree wide_split"
  by (simp add: wide_split_def valid_content_def new_pane_def default_content_def)

lemma valid_example_tree: "valid_tree example_tree"
  by (simp add: example_tree_def valid_content_def new_pane_def default_content_def)

text \<open>
  C1, as the specification states it, fails on the sizes. A split that was asked for the
  shares 300 and 500, and for which Qt reports the sizes 297 and 495, is saved with 297
  and 495; loading that file builds a split that is asked for 297 and 495. The tree that
  comes back is not equal to the tree that was saved.
\<close>

theorem roundtrip_counterexample:
  "valid_tree wide_split \<and>
   snd (create_from_state (get_state reported_297_495 [] wide_split)) =
     Inr (Some (SplitPane Horizontal [297, 495] [new_pane, new_pane])) \<and>
   SplitPane Horizontal [297, 495] [new_pane, new_pane] \<noteq> wide_split"
proof -
  have "reloaded reported_297_495 [] wide_split =
        SplitPane Horizontal [297, 495] [new_pane, new_pane]"
    by (simp add: wide_split_def reported_297_495_def new_pane_def)
  then show ?thesis
    by (simp add: create_from_state_get_state valid_wide_split) (simp add: wide_split_def)
qed

text \<open>
  C1, amended. For every valid pane tree \<open>t\<close> and whatever sizes Qt reports for its
  splitters, \<^verbatim>\<open>create_from_state(get_state(t))\<close> raises nothing and returns a tree with the
  shape of \<open>t\<close>, the same leaf contents and application names and the same orientations.
  Each split of it has been handed, through \<^verbatim>\<open>setSizes\<close>, the sizes that
  \<^verbatim>\<open>QSplitter.sizes()\<close> reported for that split when \<open>t\<close> was saved, provided Qt reported one
  size per child. Nothing is said on what the new splitters report afterwards.
\<close>

theorem roundtrip_shape:
  "valid_tree t \<Longrightarrow>
   snd (create_from_state (get_state rd [] t)) = Inr (Some (reloaded rd [] t)) \<and>
   forget_sizes (reloaded rd [] t) = forget_sizes t"
  by (simp add: create_from_state_get_state forget_sizes_reloaded)

theorem roundtrip_shape_witness:
  "valid_tree example_tree \<and>
   snd (create_from_state (get_state example_reading [] example_tree)) =
     Inr (Some (SplitPane Horizontal [297, 495]
       [ContentPane \<lparr>content_type = ''app'', app_name = JStr ''xterm''\<rparr>,
        SplitPane Vertical [100, 200, 300]
          [new_pane, ContentPane \<lparr>content_type = ''app'', app_name = JStr ''gedit''\<rparr>, new_pane]]))"
proof -
  have "reloaded example_reading [] example_tree =
     SplitPane Horizontal [297, 495]
       [ContentPane \<lparr>content_type = ''app'', app_name = JStr ''xterm''\<rparr>,
        SplitPane Vertical [100, 200, 300]
          [new_pane, ContentPane \<lparr>content_type = ''app'', app_name = JStr ''gedit''\<rparr>, new_pane]]"
    by (simp add: example_tree_def example_reading_def new_pane_def)
  with roundtrip_shape [of example_tree example_reading] valid_example_tree
  show ?thesis by simp
qed

text \<open>
  C2, as the specification states it, fails: a split whose second child has the type
  \<^verbatim>\<open>"bogus"\<close> does not make \<^verbatim>\<open>create_from_state\<close> fail. The call returns a split that holds
  the first child only.
\<close>

theorem malformed_child_counterexample:
  "create_from_state (split_state (JArr [JInt 1, JInt 1]) [default_pane_state, bogus_state])
   = ([], Inr (Some (SplitPane Vertical [1] [new_pane])))"
  by (simp add: split_state_def default_pane_state_def bogus_state_def dict_get_def
        set_pane_content_def new_pane_def reconcile_sizes_def)

text \<open>
  C2, amended. A node whose type is neither \<^verbatim>\<open>"pane"\<close> nor \<^verbatim>\<open>"split"\<close> makes
  \<^verbatim>\<open>create_from_state\<close> return \<^verbatim>\<open>None\<close> without raising, and as a child of a split it is
  skipped: the split is built exactly as if that child were absent from its list of
  children.
\<close>

theorem malformed_child_skipped:
  assumes "map_of bad ''type'' = Some ty" "ty \<noteq> JStr ''pane''" "ty \<noteq> JStr ''split''"
    and "map_of kvs ''type'' = Some (JStr ''split'')"
    and "map_of kvs ''children'' = Some (JArr (before @ JObj bad # after))"
  shows "create_from_state (JObj bad) = ([], Inr None) \<and>
         create_from_state (JObj kvs) =
         create_from_state (JObj (dict_set ''children'' (JArr (before @ after)) kvs))"
proof -
  have bad: "create_from_state (JObj bad) = ([], Inr None)"
    using assms(1-3) by simp
  have "add_children (map create_from_state (before @ JObj bad # after)) =
        add_children (map create_from_state (before @ after))"
    using add_children_skip [of "map create_from_state before" "map create_from_state after"]
    by (simp only: map_append list.map bad)
  then have "create_from_state (JObj kvs) =
         create_from_state (JObj (dict_set ''children'' (JArr (before @ after)) kvs))"
    using assms(4,5)
    by (cases "map_of kvs ''orientation''")
       (simp_all add: dict_get_def map_of_dict_set del: map_append)
  with bad show ?thesis by (rule conjI)
qed

theorem malformed_child_skipped_witness:
  "create_from_state bogus_state = ([], Inr None) \<and>
   create_from_state (split_state (JArr [JInt 1, JInt 1]) [default_pane_state, bogus_state]) =
   create_from_state (split_state (JArr [JInt 1, JInt 1]) [default_pane_state])"
  using malformed_child_skipped
    [of "[(''type'', JStr ''bogus'')]" "JStr ''bogus''"
        "[(''type'', JStr ''split''), (''orientation'', JStr ''vertical''),
          (''sizes'', JArr [JInt 1, JInt 1]),
          (''children'', JArr [default_pane_state, bogus_state])]"
        "[default_pane_state]" "[]"]
  by (simp add: split_state_def bogus_state_def)

text \<open>
  C3, as the specification states it, fails: the sizes are not checked for being positive.
  For a split with the sizes 0 and -3 and two panes, \<^verbatim>\<open>setSizes\<close> is called with exactly
  these, not with 1 and 1.
\<close>

theorem size_reconciliation_counterexample:
  "create_from_state
     (split_state (JArr [JInt 0, JInt (- 3)]) [default_pane_state, default_pane_state])
   = ([], Inr (Some (SplitPane Vertical [0, - 3] [new_pane, new_pane])))"
  by (simp add: split_state_def default_pane_state_def dict_get_def
        set_pane_content_def new_pane_def reconcile_sizes_def c_int_range_def)

text \<open>
  C3, amended. For a persisted split whose children are created without an exception, and
  whose \<^verbatim>\<open>sizes\<close> entry is a list of integers or is missing: the listed sizes are the
  argument of \<^verbatim>\<open>setSizes\<close>, as they are, if and only if the list is non-empty and as long
  as the number of child widgets created; otherwise the argument is 1 for every child.
  Whether the sizes are positive plays no part. When the listed sizes are used and one of
  them is outside the range of a C \<^verbatim>\<open>int\<close>, the call raises \<^verbatim>\<open>OverflowError\<close>. A split
  with the sizes \<^verbatim>\<open>[5]\<close> and two panes gets \<^verbatim>\<open>[1, 1]\<close>. What the splitter reports after the
  call is Qt's business and not stated.
\<close>

theorem size_reconciliation:
  assumes "map_of kvs ''type'' = Some (JStr ''split'')"
    and "map_of kvs ''orientation'' = Some ori"
    and "children_states_of (dict_get kvs ''children'' (JArr [])) = Inr cs"
    and "add_children (map create_from_state cs) = (ls, Inr ws)"
    and "dict_get kvs ''sizes'' (JArr []) = JArr (map JInt ss)"
  shows "create_from_state (JObj kvs) =
         (ls,
          if ss \<noteq> [] \<and> length ss = length ws then
            (if list_all c_int_range ss
             then Inr (Some (SplitPane
                    (if ori = JStr ''horizontal'' then Horizontal else Vertical) ss ws))
             else Inl OverflowError)
          else Inr (Some (SplitPane
                    (if ori = JStr ''horizontal'' then Horizontal else Vertical)
                    (replicate (length ws) 1) ws)))"
  using assms by (simp add: reconcile_sizes_ints)

theorem size_reconciliation_witness:
  "create_from_state (split_state (JArr [JInt 5]) [default_pane_state, default_pane_state]) =
     ([], Inr (Some (SplitPane Vertical [1, 1] [new_pane, new_pane]))) \<and>
   create_from_state
     (split_state (JArr [JInt 300, JInt 500]) [default_pane_state, default_pane_state]) =
     ([], Inr (Some (SplitPane Vertical [300, 500] [new_pane, new_pane]))) \<and>
   create_from_state
     (split_state (JArr [JInt 2147483648, JInt 1]) [default_pane_state, default_pane_state]) =
     ([], Inl OverflowError)"
  using size_reconciliation
    [of "[(''type'', JStr ''split''), (''orientation'', JStr ''vertical''),
          (''sizes'', JArr [JInt 5]),
          (''children'', JArr [default_pane_state, default_pane_state])]"
        "JStr ''vertical''" "[default_pane_state, default_pane_state]" "[]"
        "[new_pane, new_pane]" "[5]"]
    size_reconciliation
    [of "[(''type'', JStr ''split''), (''orientation'', JStr ''vertical''),
          (''sizes'', JArr [JInt 300, JInt 500]),
          (''children'', JArr [default_pane_state, default_pane_state])]"
        "JStr ''vertical''" "[default_pane_state, default_pane_state]" "[]"
        "[new_pane, new_pane]" "[300, 500]"]
    size_reconciliation
    [of "[(''type'', JStr ''split''), (''orientation'', JStr ''vertical''),
          (''sizes'', JArr [JInt 2147483648, JInt 1]),
          (''children'', JArr [default_pane_state, default_pane_state])]"
        "JStr ''vertical''" "[default_pane_state, default_pane_state]" "[]"
        "[new_pane, new_pane]" "[2147483648, 1]"]
  by (simp add: split_state_def default_pane_state_def dict_get_def set_pane_content_def
        new_pane_def c_int_range_def)



section \<open>Properties of \<^verbatim>\<open>load_workspace\<close>\<close>

text \<open>A file that is missing, unreadable or not JSON leaves the panes of the window alone.\<close>

lemma load_workspace_unparsed:
  "f \<in> {NoFile, ReadError, InvalidJSON} \<Longrightarrow>
   root_pane (load_workspace f w) = root_pane w \<and> main_layout (load_workspace f w) = main_layout w"
  by (auto simp: load_workspace_def)

text \<open>
  C5. The file \<^verbatim>\<open>{"type": "bogus"}\<close> parses, and no tree can be built from it. The window,
  which showed one pane, is left with no root pane and an empty layout: the old tree is
  discarded before the new one is built.
\<close>

theorem load_workspace_discards_root:
  "load_workspace (Parsed bogus_state) init_window =
     \<lparr>root_pane = None, main_layout = [], launched = [], messages = [CriticalFailed]\<rparr>"
  by (simp add: load_workspace_def bogus_state_def init_window_def)

section \<open>Properties of the drag gesture\<close>

lemma run_append: "run (es @ fs) s = run fs (run es s)"
  by (induction es arbitrary: s) auto

text \<open>Moves that stay within the threshold only record the pointer position.\<close>

lemma run_moves_below_threshold:
  assumes "dragging_handle s" and "\<not> is_split (widget s)"
    and "\<forall>q \<in> set pre. max \<bar>xp q - xp (drag_start_pos s)\<bar> \<bar>yp q - yp (drag_start_pos s)\<bar>
           \<le> split_threshold s"
  shows "\<exists>c. run (map Move pre) s = s\<lparr>current_drag_pos := c\<rparr>"
  using assms
proof (induction pre arbitrary: s)
  case Nil
  have "s = s\<lparr>current_drag_pos := current_drag_pos s\<rparr>" by simp
  then show ?case by (metis list.simps(8) run.simps(1))
next
  case (Cons q pre)
  let ?s1 = "s\<lparr>current_drag_pos := q\<rparr>"
  from Cons.prems have step: "mouseMoveEvent q s = ?s1"
    by (auto simp: mouseMoveEvent_def point_diff_def Let_def)
  from Cons.prems have "\<exists>c. run (map Move pre) ?s1 = ?s1\<lparr>current_drag_pos := c\<rparr>"
    by (intro Cons.IH) auto
  then show ?case by (auto simp: step)
qed

text \<open>A pane that is split and not being dragged ignores every mouse event.\<close>

lemma run_split_pane_idle:
  "is_split (widget s) \<Longrightarrow> \<not> dragging_handle s \<Longrightarrow> run es s = s"
proof (induction es)
  case Nil
  then show ?case by simp
next
  case (Cons e es)
  then have "deliver e s = s"
    by (cases e) (simp_all add: mousePressEvent_def mouseMoveEvent_def mouseReleaseEvent_def)
  with Cons show ?case by simp
qed

lemma press_on_handle:
  "\<not> is_split (widget s) \<Longrightarrow> contains (get_handle_rect s) p0 \<Longrightarrow>
   mousePressEvent p0 LeftButton s =
     s\<lparr>dragging_handle := True, drag_start_pos := p0, current_drag_pos := p0,
       mouse_grabbed := True\<rparr>"
  by (simp add: mousePressEvent_def)

text \<open>
  C6. Gesture split trigger: a drag starts with the left button on the handle of an
  unsplit pane at \<open>p0\<close>; the moves \<open>pre\<close> stay within the threshold; \<open>m\<close> is the first move
  with \<open>max(|dx|, |dy|)\<close> above it. Then up to and including \<open>m\<close> exactly one call of
  \<^verbatim>\<open>split\<close> has been made, with the orientation horizontal if \<open>|dx| > |dy|\<close> and vertical
  otherwise, the pane has been split accordingly, the mouse grab is released and the drag
  is over; whatever events follow change nothing and draw no preview line.
\<close>

theorem gesture_split_trigger:
  assumes "\<not> is_split (widget s)" and "contains (get_handle_rect s) p0"
    and "\<forall>q \<in> set pre. max \<bar>xp q - xp p0\<bar> \<bar>yp q - yp p0\<bar> \<le> split_threshold s"
    and "max \<bar>xp m - xp p0\<bar> \<bar>yp m - yp p0\<bar> > split_threshold s"
  shows "let s' = run (Press p0 LeftButton # map Move pre @ [Move m]) s;
             ori = (if \<bar>xp m - xp p0\<bar> > \<bar>yp m - yp p0\<bar> then Horizontal else Vertical)
         in calls s' = calls s @ [SplitCall ori] \<and>
            widget s' = split ori (pane_width s) (pane_height s) (widget s) \<and>
            \<not> mouse_grabbed s' \<and> \<not> dragging_handle s' \<and>
            (\<forall>rest. run rest s' = s' \<and> \<not> drag_line_drawn (run rest s'))"
proof -
  let ?s0 = "s\<lparr>dragging_handle := True, drag_start_pos := p0, current_drag_pos := p0,
                mouse_grabbed := True\<rparr>"
  let ?ori = "if \<bar>xp m - xp p0\<bar> > \<bar>yp m - yp p0\<bar> then Horizontal else Vertical"
  have press: "mousePressEvent p0 LeftButton s = ?s0"
    using assms(1,2) by (rule press_on_handle)
  obtain c where pre: "run (map Move pre) ?s0 = ?s0\<lparr>current_drag_pos := c\<rparr>"
    using run_moves_below_threshold [of ?s0 pre] assms(1,3) by auto
  define s' where "s' = mouseMoveEvent m (?s0\<lparr>current_drag_pos := c\<rparr>)"
  have run: "run (Press p0 LeftButton # map Move pre @ [Move m]) s = s'"
    by (simp add: run_append press pre s'_def)
  have s': "s' = (call_split ?ori (?s0\<lparr>current_drag_pos := m\<rparr>))
                    \<lparr>dragging_handle := False, mouse_grabbed := False\<rparr>"
    using assms(1,4) by (auto simp: s'_def mouseMoveEvent_def point_diff_def Let_def)
  have split: "is_split (widget s')" "\<not> dragging_handle s'"
    using assms(1) by (simp_all add: s' call_split_def split_def)
  have idle: "run rest s' = s'" for rest
    using split by (rule run_split_pane_idle)
  have "calls s' = calls s @ [SplitCall ?ori]"
    "widget s' = split ?ori (pane_width s) (pane_height s) (widget s)"
    "\<not> mouse_grabbed s'"
    by (simp_all add: s' call_split_def)
  with split idle show ?thesis
    unfolding Let_def run by (simp add: drag_line_drawn_def)
qed

theorem gesture_split_trigger_witness:
  "calls (run [Press \<lparr>xp = 0, yp = 0\<rparr> LeftButton, Move \<lparr>xp = 5, yp = 5\<rparr>,
               Move \<lparr>xp = 12, yp = 3\<rparr>]
            (init_pane 10 10)) = [SplitCall Horizontal] \<and>
   calls (run [Press \<lparr>xp = 0, yp = 0\<rparr> LeftButton, Move \<lparr>xp = 3, yp = 12\<rparr>]
            (init_pane 10 10)) = [SplitCall Vertical]"
  using gesture_split_trigger
          [of "init_pane 10 10" "\<lparr>xp = 0, yp = 0\<rparr>" "[\<lparr>xp = 5, yp = 5\<rparr>]" "\<lparr>xp = 12, yp = 3\<rparr>"]
        gesture_split_trigger
          [of "init_pane 10 10" "\<lparr>xp = 0, yp = 0\<rparr>" "[]" "\<lparr>xp = 3, yp = 12\<rparr>"]
  by (simp add: init_pane_def new_pane_def get_handle_rect_def contains_def
        SPLIT_THRESHOLD_def Let_def)

text \<open>
  C7, as the specification states it, fails at the boundary: a drag from the handle at
  (0, 0) to (10, 0) never exceeds the threshold 10, and releasing there opens no options
  dialog.
\<close>

theorem click_on_release_counterexample:
  "contains (get_handle_rect (init_pane 10 10)) \<lparr>xp = 0, yp = 0\<rparr> \<and>
   max \<bar>10 - 0\<bar> \<bar>0 - 0\<bar> \<le> split_threshold (init_pane 10 10) \<and>
   calls (run [Press \<lparr>xp = 0, yp = 0\<rparr> LeftButton, Move \<lparr>xp = 10, yp = 0\<rparr>,
               Release \<lparr>xp = 10, yp = 0\<rparr>]
            (init_pane 10 10)) = []"
  by (simp add: init_pane_def new_pane_def get_handle_rect_def contains_def SPLIT_THRESHOLD_def
        mousePressEvent_def mouseMoveEvent_def mouseReleaseEvent_def point_diff_def Let_def)

text \<open>
  C7, amended. A drag starts with the left button on the handle of an unsplit pane at
  \<open>p0\<close> and its moves stay within the threshold. Releasing at \<open>r\<close> ends the drag and
  releases the mouse grab; it calls \<^verbatim>\<open>open_pane_options\<close> once if \<open>|dx|\<close> and \<open>|dy|\<close> of
  \<open>r - p0\<close> are both strictly below the threshold, and makes no call otherwise. The pane
  itself is unchanged.
\<close>

theorem click_on_release:
  assumes "\<not> is_split (widget s)" and "contains (get_handle_rect s) p0"
    and "\<forall>q \<in> set pre. max \<bar>xp q - xp p0\<bar> \<bar>yp q - yp p0\<bar> \<le> split_threshold s"
  shows "let s' = run (Press p0 LeftButton # map Move pre @ [Release r]) s
         in calls s' = calls s @
              (if \<bar>xp r - xp p0\<bar> < split_threshold s \<and> \<bar>yp r - yp p0\<bar> < split_threshold s
               then [OpenPaneOptions] else []) \<and>
            widget s' = widget s \<and> \<not> mouse_grabbed s' \<and> \<not> dragging_handle s'"
proof -
  let ?s0 = "s\<lparr>dragging_handle := True, drag_start_pos := p0, current_drag_pos := p0,
                mouse_grabbed := True\<rparr>"
  have press: "mousePressEvent p0 LeftButton s = ?s0"
    using assms(1,2) by (rule press_on_handle)
  obtain c where pre: "run (map Move pre) ?s0 = ?s0\<lparr>current_drag_pos := c\<rparr>"
    using run_moves_below_threshold [of ?s0 pre] assms(1,3) by auto
  have run: "run (Press p0 LeftButton # map Move pre @ [Release r]) s =
             mouseReleaseEvent r (?s0\<lparr>current_drag_pos := c\<rparr>)"
    by (simp add: run_append press pre)
  show ?thesis
    unfolding Let_def run using assms(1)
    by (simp add: mouseReleaseEvent_def point_diff_def Let_def)
qed

theorem click_on_release_witness:
  "calls (run [Press \<lparr>xp = 0, yp = 0\<rparr> LeftButton, Move \<lparr>xp = 4, yp = 2\<rparr>,
               Release \<lparr>xp = 5, yp = 5\<rparr>]
            (init_pane 10 10)) = [OpenPaneOptions]"
  using click_on_release
          [of "init_pane 10 10" "\<lparr>xp = 0, yp = 0\<rparr>" "[\<lparr>xp = 4, yp = 2\<rparr>]" "\<lparr>xp = 5, yp = 5\<rparr>"]
  by (simp add: init_pane_def new_pane_def get_handle_rect_def contains_def
        SPLIT_THRESHOLD_def Let_def)

section \<open>Properties of splitting and closing\<close>

lemma split_at_replace:
  "widget_at path t = Some self \<Longrightarrow>
   split_at path ori w h t = Some (Inr (replace_at path (split ori w h self) t))"
proof (induction path arbitrary: t)
  case Nil
  then show ?case by simp
next
  case (Cons i path)
  then show ?case by (cases t) (auto split: if_splits)
qed

lemma replace_at_same: "widget_at path t = Some self \<Longrightarrow> replace_at path self t = t"
proof (induction path arbitrary: t)
  case Nil
  then show ?case by simp
next
  case (Cons i path)
  then show ?case by (cases t) (auto split: if_splits)
qed

text \<open>
  C8, as the specification states it, fails: \<^verbatim>\<open>split\<close> called on a pane that is already
  split does not fail. The call returns normally, with the tree as it was.
\<close>

theorem split_counterexample:
  "widget_at [1] example_tree =
     Some (SplitPane Vertical [2, 1, 7]
        [new_pane, ContentPane \<lparr>content_type = ''app'', app_name = JStr ''gedit''\<rparr>, new_pane]) \<and>
   split_at [1] Horizontal 800 600 example_tree = Some (Inr example_tree)"
  by (simp add: example_tree_def split_def)

text \<open>
  C8, amended. \<^verbatim>\<open>split\<close> called on the widget at a path returns normally in every case.
  If that widget is already split, the tree is unchanged and no error is signalled. If it
  is a leaf, the leaf is replaced by a split of the given orientation that holds exactly
  two fresh default leaves with equal weights: \<^verbatim>\<open>setSizes\<close> is called with two equal
  numbers, half the pane's width for a horizontal split and half its height for a vertical
  one. The rest of the tree is as it was.
\<close>

theorem split_at_path:
  assumes "widget_at path t = Some self"
  shows "(is_split self \<longrightarrow> split_at path ori w h t = Some (Inr t)) \<and>
         (\<not> is_split self \<longrightarrow>
            split_at path ori w h t =
              Some (Inr (replace_at path
                 (SplitPane ori
                    (if ori = Horizontal then [w div 2, w div 2] else [h div 2, h div 2])
                    [ContentPane \<lparr>content_type = ''default'', app_name = JNull\<rparr>,
                     ContentPane \<lparr>content_type = ''default'', app_name = JNull\<rparr>]) t)))"
proof (intro conjI impI)
  assume "is_split self"
  then have "split ori w h self = self" by (simp add: split_def)
  with assms show "split_at path ori w h t = Some (Inr t)"
    by (simp add: split_at_replace replace_at_same)
next
  assume "\<not> is_split self"
  then have "split ori w h self =
      SplitPane ori (if ori = Horizontal then [w div 2, w div 2] else [h div 2, h div 2])
        [ContentPane \<lparr>content_type = ''default'', app_name = JNull\<rparr>,
         ContentPane \<lparr>content_type = ''default'', app_name = JNull\<rparr>]"
    by (simp add: split_def new_pane_def default_content_def)
  with assms show "split_at path ori w h t =
      Some (Inr (replace_at path
         (SplitPane ori (if ori = Horizontal then [w div 2, w div 2] else [h div 2, h div 2])
            [ContentPane \<lparr>content_type = ''default'', app_name = JNull\<rparr>,
             ContentPane \<lparr>content_type = ''default'', app_name = JNull\<rparr>]) t))"
    by (simp add: split_at_replace)
qed

theorem split_at_path_witness:
  "split_at [1] Vertical 800 600 example_tree = Some (Inr example_tree) \<and>
   split_at [1, 0] Vertical 500 260 example_tree =
     Some (Inr (SplitPane Horizontal [300, 500]
       [ContentPane \<lparr>content_type = ''app'', app_name = JStr ''xterm''\<rparr>,
        SplitPane Vertical [2, 1, 7]
          [SplitPane Vertical [130, 130] [new_pane, new_pane],
           ContentPane \<lparr>content_type = ''app'', app_name = JStr ''gedit''\<rparr>, new_pane]]))"
  using split_at_path [of "[1]" example_tree
          "SplitPane Vertical [2, 1, 7]
            [new_pane, ContentPane \<lparr>content_type = ''app'', app_name = JStr ''gedit''\<rparr>, new_pane]"
          Vertical 800 600]
        split_at_path [of "[1, 0]" example_tree new_pane Vertical 500 260]
  by (simp add: example_tree_def new_pane_def default_content_def)

lemma widget_at_append:
  "widget_at path t = Some (SplitPane ori sizes children) \<Longrightarrow> i < length children \<Longrightarrow>
   widget_at (path @ [i]) t = Some (children ! i)"
proof (induction path arbitrary: t)
  case Nil
  then show ?case by simp
next
  case (Cons j path)
  then show ?case by (cases t) (auto split: if_splits)
qed

lemma deferred_delete_child:
  assumes "widget_at path t = Some (SplitPane ori sizes children)"
  shows "deferred_delete (path @ [i]) t =
         replace_at path (SplitPane ori sizes (delete_nth i children)) t"
  using assms
proof (induction path arbitrary: t)
  case Nil
  then show ?case by simp
next
  case (Cons j path)
  from Cons.prems obtain o' ss ws where t: "t = SplitPane o' ss ws"
    by (cases t) auto
  with Cons.prems have j: "j < length ws"
    and sub: "widget_at path (ws ! j) = Some (SplitPane ori sizes children)"
    by (auto split: if_splits)
  obtain k rest where pi: "path @ [i] = k # rest" by (cases "path @ [i]") auto
  from Cons.IH [OF sub] show ?case
    using t j pi by simp
qed

text \<open>
  C4, as the specification states it, fails: closing one of the two panes of a valid split
  leaves that split in place with a single child.
\<close>

theorem collapse_counterexample:
  "valid_tree two_panes \<and>
   close_pane [0] two_panes = DeleteLater [0] \<and>
   forget_sizes (deferred_delete [0] two_panes) = SplitPane Horizontal [] [new_pane] \<and>
   \<not> splits_have_two (deferred_delete [0] two_panes)"
  by (simp add: two_panes_def new_pane_def default_content_def valid_content_def delete_nth_def)

text \<open>
  C4, amended. Closing the \<open>i\<close>-th child of the split at \<open>path\<close> calls \<^verbatim>\<open>deleteLater\<close> on
  that child and nothing else. Once Qt has deleted it, the split is still where it was,
  with the same orientation and with its other children in the same order, however many are
  left; every other pane, content and orientation of the tree is as before. No split is
  ever replaced by its child.
\<close>

theorem close_pane_removes_child:
  assumes "widget_at path t = Some (SplitPane ori sizes children)" and "i < length children"
  shows "close_pane (path @ [i]) t = DeleteLater (path @ [i]) \<and>
         forget_sizes (deferred_delete (path @ [i]) t) =
         forget_sizes (replace_at path (SplitPane ori [] (delete_nth i children)) t)"
proof
  obtain k rest where pi: "path @ [i] = k # rest" by (cases "path @ [i]") auto
  from assms have "widget_at (path @ [i]) t = Some (children ! i)"
    by (rule widget_at_append)
  then show "close_pane (path @ [i]) t = DeleteLater (path @ [i])"
    by (simp add: pi)
next
  have "forget_sizes (replace_at p a u) = forget_sizes (replace_at p b u)"
    if "forget_sizes a = forget_sizes b" for p a b u
    using that
  proof (induction p arbitrary: u)
    case Nil
    then show ?case by simp
  next
    case (Cons j p)
    then show ?case by (cases u) (auto simp: map_update)
  qed
  then show "forget_sizes (deferred_delete (path @ [i]) t) =
         forget_sizes (replace_at path (SplitPane ori [] (delete_nth i children)) t)"
    using assms(1) by (simp add: deferred_delete_child)
qed

theorem close_pane_removes_child_witness:
  "close_pane [1, 0] example_tree = DeleteLater [1, 0] \<and>
   forget_sizes (deferred_delete [1, 0] example_tree) =
     SplitPane Horizontal []
       [ContentPane \<lparr>content_type = ''app'', app_name = JStr ''xterm''\<rparr>,
        SplitPane Vertical []
          [ContentPane \<lparr>content_type = ''app'', app_name = JStr ''gedit''\<rparr>, new_pane]]"
  using close_pane_removes_child [of "[1]" example_tree Vertical "[2, 1, 7]"
     "[new_pane, ContentPane \<lparr>content_type = ''app'', app_name = JStr ''gedit''\<rparr>, new_pane]" 0]
  by (simp add: example_tree_def delete_nth_def new_pane_def)

section \<open>Properties of the file name\<close>

lemma spec_strip_trailing_Nil:
  "spec_strip_trailing cs = [] \<longleftrightarrow> (\<forall>c \<in> set cs. isspace c)"
  by (induction cs) auto

lemma dropWhile_rev_spec: "dropWhile isspace (rev cs) = rev (spec_strip_trailing cs)"
  by (induction cs) (auto simp: dropWhile_append spec_strip_trailing_Nil)

lemma rstrip_spec: "rstrip cs = spec_strip_trailing cs"
  by (simp add: rstrip_def dropWhile_rev_spec)

text \<open>
  C9. Filename derivation: for every workspace name the path returned is the workspace
  directory joined with the name derived as the specification says (keep alphanumeric
  characters, spaces, \<^verbatim>\<open>.\<close> and \<^verbatim>\<open>_\<close>; strip trailing whitespace; replace spaces by \<^verbatim>\<open>_\<close>;
  \<^verbatim>\<open>untitled_workspace\<close> if nothing is left; append \<^verbatim>\<open>.json\<close>). \<^verbatim>\<open>My Workspace!\<close> gives
  \<^verbatim>\<open>My_Workspace.json\<close> and three spaces give \<^verbatim>\<open>untitled_workspace.json\<close>.
\<close>

theorem filename_derivation:
  "get_workspace_file_path tbl dir name = os_path_join dir (spec_filename tbl name) \<and>
   get_workspace_file_path tbl (py_str ''/w'') (py_str ''My Workspace!'') =
     py_str ''/w/My_Workspace.json'' \<and>
   get_workspace_file_path tbl (py_str ''/w'') (py_str ''   '') =
     py_str ''/w/untitled_workspace.json''"
proof (intro conjI)
  have keep: "(\<lambda>c. isalnum tbl c \<or> c \<in> set (py_str '' ._'')) = spec_keep tbl"
    by (auto simp: spec_keep_def py_str_def fun_eq_iff)
  show "get_workspace_file_path tbl dir name = os_path_join dir (spec_filename tbl name)"
    by (simp add: get_workspace_file_path_def spec_filename_def keep rstrip_spec Let_def
          cong: if_cong)
  show "get_workspace_file_path tbl (py_str ''/w'') (py_str ''My Workspace!'') =
          py_str ''/w/My_Workspace.json''"
    by (simp add: get_workspace_file_path_def py_str_def isalnum_def rstrip_def isspace_def
          os_path_join_def)
  show "get_workspace_file_path tbl (py_str ''/w'') (py_str ''   '') =
          py_str ''/w/untitled_workspace.json''"
    by (simp add: get_workspace_file_path_def py_str_def isalnum_def rstrip_def isspace_def
          os_path_join_def)
qed

end

